theory Spec2Isabelle
  imports Complex_Main "HOL-Library.AList"
begin

section \<open>Python values\<close>

text \<open>
  The values that flow through the scripts are JSON documents and the dictionaries
  built from them. A dictionary is an association list with the keys in insertion
  order, as a Python \<^verbatim>\<open>dict\<close> keeps them.
\<close>

datatype pyval =
    PNone
  | PBool bool
  | PInt int
  | PFloat real
  | PStr string
  | PList "pyval list"
  | PDict "(string \<times> pyval) list"

text \<open>Truthiness, as \<^verbatim>\<open>if x:\<close> and \<^verbatim>\<open>not x\<close> test it.\<close>

fun truthy :: "pyval \<Rightarrow> bool" where
  "truthy PNone = False"
| "truthy (PBool b) = b"
| "truthy (PInt n) = (n \<noteq> 0)"
| "truthy (PFloat x) = (x \<noteq> 0)"
| "truthy (PStr s) = (s \<noteq> [])"
| "truthy (PList xs) = (xs \<noteq> [])"
| "truthy (PDict kvs) = (kvs \<noteq> [])"

text \<open>
  The exceptions of the language and of the web framework that the scripts can run
  into. \<^verbatim>\<open>HTTPException\<close> is the framework's abort (for example from
  \<^verbatim>\<open>request.get_json()\<close> on a body that is not JSON), with its status.
\<close>

datatype py_exn =
  KeyError string | TypeError | AttributeError | ZeroDivisionError | HTTPException int | OSError

section \<open>Requests.py\<close>

subsection \<open>String helpers of the standard library\<close>

text \<open>
  \<^verbatim>\<open>s.lstrip(chars)\<close> and \<^verbatim>\<open>s.rstrip(chars)\<close> remove every leading (trailing)
  character that occurs in \<^verbatim>\<open>chars\<close>; \<^verbatim>\<open>s.startswith(p)\<close> tests a prefix.
  The only character stripped here is the ASCII slash, which is never part of a
  multi-byte UTF-8 sequence, so stripping bytes and stripping code points agree.
\<close>

definition lstrip :: "string \<Rightarrow> string \<Rightarrow> string" where
  "lstrip chars s = dropWhile (\<lambda>c. c \<in> set chars) s"

definition rstrip :: "string \<Rightarrow> string \<Rightarrow> string" where
  "rstrip chars s = rev (dropWhile (\<lambda>c. c \<in> set chars) (rev s))"

definition startswith :: "string \<Rightarrow> string \<Rightarrow> bool" where
  "startswith s p = (take (length p) s = p)"

subsection \<open>The library's responses and exceptions\<close>

text \<open>
  An exception is known by the classes it is an instance of: an \<^verbatim>\<open>except C\<close>
  clause catches it when \<^verbatim>\<open>C\<close> is among them, and the first such clause wins.
  A response carries what the scripts read from it; \<open>json\<close> is the outcome of calling
  \<^verbatim>\<open>response.json()\<close> and \<open>http_error_message\<close> the text \<^verbatim>\<open>raise_for_status\<close>
  puts into its exception.
\<close>

datatype exc_class =
  HTTPError | ConnectionError | Timeout | RequestException | JSONDecodeError | OtherException

datatype exc =
  Exc (exc_classes: "exc_class list") (exc_msg: string) (exc_response: "response option")
and response =
  Response (status_code: int) (content_type: string) (headers: "(string \<times> string) list")
    (resp_text: string) (json: "exc + pyval") (http_error_message: string)

definition isinstance :: "exc \<Rightarrow> exc_class \<Rightarrow> bool" where
  "isinstance e c = (c \<in> set (exc_classes e))"

text \<open>
  \<^verbatim>\<open>Response.raise_for_status\<close> raises \<^verbatim>\<open>HTTPError\<close> (a \<^verbatim>\<open>RequestException\<close>) for a
  status from 400 to 599, and \<^verbatim>\<open>bool(response)\<close> is \<^verbatim>\<open>response.ok\<close>: true exactly
  when \<^verbatim>\<open>raise_for_status\<close> does not raise.
\<close>

definition raise_for_status :: "response \<Rightarrow> exc + unit" where
  "raise_for_status r =
     (if 400 \<le> status_code r \<and> status_code r < 600
      then Inl (Exc [HTTPError, RequestException] (http_error_message r) (Some r))
      else Inr ())"


text \<open>
  The network is a parameter: \<open>tr method url\<close> is what the library's request
  returns or raises (the time limit and the other keyword arguments, which the
  functions only pass on, are part of what it stands for). What a script prints and
  which requests it sends are the effects, kept in the world.
\<close>

type_synonym transport = "string \<Rightarrow> string \<Rightarrow> exc + response"

record world =
  printed :: "string list"
  sent :: "(string \<times> string) list"

definition send :: "transport \<Rightarrow> string \<Rightarrow> string \<Rightarrow> world \<Rightarrow> (exc + response) \<times> world" where
  "send tr method url w = (tr method url, w\<lparr>sent := sent w @ [(method, url)]\<rparr>)"

definition print :: "string \<Rightarrow> world \<Rightarrow> world" where
  "print line w = w\<lparr>printed := printed w @ [line]\<rparr>"

subsection \<open>\<^verbatim>\<open>make_request_with_error_handling\<close>\<close>




subsection \<open>\<^verbatim>\<open>create_session_with_retries\<close>\<close>

text \<open>
  \<^verbatim>\<open>Retry\<close> is urllib3's class, and which keywords its constructor takes depends on
  the urllib3 that is installed. The installed library is a parameter: the list of the
  keyword parameters of \<^verbatim>\<open>Retry.__init__\<close>. Up to 1.25 the methods to retry are
  \<^verbatim>\<open>method_whitelist\<close>; 1.26 adds \<^verbatim>\<open>allowed_methods\<close> and still takes the old name;
  from 2.0 on the old name is gone. A call with a keyword that the function does not
  have raises \<^verbatim>\<open>TypeError\<close>.
\<close>

type_synonym urllib3 = "string list"

definition urllib3_1_25 :: urllib3 where
  "urllib3_1_25 =
     [''total'', ''connect'', ''read'', ''redirect'', ''status'', ''method_whitelist'',
      ''status_forcelist'', ''backoff_factor'', ''raise_on_redirect'', ''raise_on_status'',
      ''history'', ''respect_retry_after_header'', ''remove_headers_on_redirect'']"

definition urllib3_1_26 :: urllib3 where
  "urllib3_1_26 =
     [''total'', ''connect'', ''read'', ''redirect'', ''status'', ''other'', ''allowed_methods'',
      ''status_forcelist'', ''backoff_factor'', ''raise_on_redirect'', ''raise_on_status'',
      ''history'', ''respect_retry_after_header'', ''remove_headers_on_redirect'',
      ''method_whitelist'']"

definition urllib3_2 :: urllib3 where
  "urllib3_2 =
     [''total'', ''connect'', ''read'', ''redirect'', ''status'', ''other'', ''allowed_methods'',
      ''status_forcelist'', ''backoff_factor'', ''backoff_max'', ''raise_on_redirect'',
      ''raise_on_status'', ''history'', ''respect_retry_after_header'',
      ''remove_headers_on_redirect'', ''backoff_jitter'']"

record retry =
  total :: int
  status_forcelist :: "int list"
  method_whitelist :: "string list"
  backoff_factor :: int

text \<open>
  \<^verbatim>\<open>Retry(total=..., status_forcelist=..., method_whitelist=..., backoff_factor=...)\<close>,
  the call of the source, on the installed library.
\<close>

definition Retry :: "urllib3 \<Rightarrow> int \<Rightarrow> int list \<Rightarrow> string list \<Rightarrow> int \<Rightarrow> py_exn + retry" where
  "Retry lib t sf mw bf =
     (if list_all (\<lambda>k. k \<in> set lib)
           [''total'', ''status_forcelist'', ''method_whitelist'', ''backoff_factor'']
      then Inr \<lparr>total = t, status_forcelist = sf, method_whitelist = mw, backoff_factor = bf\<rparr>
      else Inl TypeError)"

text \<open>
  \<^verbatim>\<open>HTTPAdapter(max_retries=...)\<close> builds a configuration object. A fresh
  \<^verbatim>\<open>requests.Session()\<close> has the library's default adapter mounted on both prefixes,
  and \<^verbatim>\<open>session.mount(prefix, adapter)\<close> stores the adapter under the prefix.
\<close>

datatype adapter = DefaultAdapter | HTTPAdapter retry

record requests_session =
  adapters :: "(string \<times> adapter) list"

definition Session :: requests_session where
  "Session = \<lparr>adapters = [(''https://'', DefaultAdapter), (''http://'', DefaultAdapter)]\<rparr>"

definition mount :: "string \<Rightarrow> adapter \<Rightarrow> requests_session \<Rightarrow> requests_session" where
  "mount pfx a s = s\<lparr>adapters := AList.update pfx a (adapters s)\<rparr>"

text \<open>
  The function raises what \<^verbatim>\<open>Retry(...)\<close> raises and returns no session then. It
  calls nothing that sends a request or prints: the world comes back as it was.
\<close>

definition create_session_with_retries ::
    "urllib3 \<Rightarrow> world \<Rightarrow> (py_exn + requests_session) \<times> world" where
  "create_session_with_retries lib w =
     (let session = Session in
      case Retry lib 3 [429, 500, 502, 503, 504] [''HEAD'', ''GET'', ''OPTIONS''] 1 of
        Inl e \<Rightarrow> (Inl e, w)
      | Inr retry_strategy \<Rightarrow>
          (let adapter = HTTPAdapter retry_strategy;
               session = mount ''http://'' adapter session;
               session = mount ''https://'' adapter session
           in (Inr session, w)))"

subsection \<open>\<^verbatim>\<open>APIClient\<close>\<close>

text \<open>
  The client. \<open>session_headers\<close> holds the headers that \<^verbatim>\<open>__init__\<close> sets on the
  session; the defaults the library puts on every session (\<^verbatim>\<open>Accept-Encoding\<close>,
  \<^verbatim>\<open>Connection\<close>) are left to the transport.
\<close>

record api_client =
  base_url :: string
  session_headers :: "(string \<times> string) list"
  timeout :: int

definition APIClient_init :: "string \<Rightarrow> string option \<Rightarrow> int \<Rightarrow> api_client" where
  "APIClient_init url api_key tmo =
     \<lparr>base_url = rstrip ''/'' url,
      session_headers =
        (let hs = [(''Content-Type'', ''application/json''),
                   (''Accept'', ''application/json''),
                   (''User-Agent'', ''APIClient/1.0'')]
         in case api_key of
              None \<Rightarrow> hs
            | Some k \<Rightarrow> if k \<noteq> [] then AList.update ''Authorization'' (''Bearer '' @ k) hs else hs),
      timeout = tmo\<rparr>"

text \<open>The first statement of \<^verbatim>\<open>_make_request\<close>: the URL it asks the session for.\<close>

definition request_url :: "api_client \<Rightarrow> string \<Rightarrow> string" where
  "request_url self endpoint = base_url self @ ''/'' @ lstrip ''/'' endpoint"

text \<open>
  \<^verbatim>\<open>_make_request\<close>: the inner \<^verbatim>\<open>try\<close> falls back to the text when parsing raises
  \<^verbatim>\<open>JSONDecodeError\<close>; the outer one prints and re-raises a \<^verbatim>\<open>RequestException\<close>.
\<close>

definition APIClient_make_request ::
    "transport \<Rightarrow> api_client \<Rightarrow> string \<Rightarrow> string \<Rightarrow> world \<Rightarrow> (exc + pyval) \<times> world" where
  "APIClient_make_request tr self method endpoint w =
     (let url = request_url self endpoint;
          (got, w1) = send tr method url w;
          outcome =
            (case got of
               Inl e \<Rightarrow> Inl e
             | Inr r \<Rightarrow>
                 (case raise_for_status r of
                    Inl e \<Rightarrow> Inl e
                  | Inr _ \<Rightarrow>
                      (case json r of
                         Inr v \<Rightarrow> Inr v
                       | Inl e \<Rightarrow>
                           if isinstance e JSONDecodeError then Inr (PStr (resp_text r))
                           else Inl e)))
      in case outcome of
           Inr v \<Rightarrow> (Inr v, w1)
         | Inl e \<Rightarrow>
             if isinstance e RequestException
             then (Inl e, print (''API Error: '' @ exc_msg e) w1)
             else (Inl e, w1))"

subsection \<open>\<^verbatim>\<open>RateLimitedClient\<close>\<close>







section \<open>Flask.py\<close>

subsection \<open>Requests, responses and the state a handler can reach\<close>

text \<open>
  The request as the handlers read it. \<open>http_method\<close> is \<^verbatim>\<open>request.method\<close>;
  \<open>get_json\<close> is the outcome of
  \<^verbatim>\<open>request.get_json()\<close>; \<open>to_int\<close> is Python's \<^verbatim>\<open>int\<close> on a string (\<open>None\<close> for
  \<^verbatim>\<open>ValueError\<close>), used by \<^verbatim>\<open>get(..., type=int)\<close>; \<open>now_iso\<close> and \<open>now_str\<close> are
  \<^verbatim>\<open>datetime.now()\<close> in the two formats the handlers print; \<open>fs_writable\<close> says
  whether \<^verbatim>\<open>open(filename, 'w')\<close> succeeds and \<open>send_file_ok\<close> whether
  \<^verbatim>\<open>send_file\<close>, which looks the name up under the application's root, finds the file.
\<close>

record request =
  http_method :: string
  path :: string
  args :: "(string \<times> string) list"
  form :: "(string \<times> string) list"
  files :: "(string \<times> string \<times> string) list"
  get_json :: "py_exn + pyval"
  is_json :: bool
  to_int :: "string \<Rightarrow> int option"
  now_iso :: string
  now_str :: string
  fs_writable :: bool
  send_file_ok :: bool

text \<open>
  A response body. The static markup of an HTML page is left out: \<open>Html page vs\<close> is
  the page named \<open>page\<close> with the values \<open>vs\<close> interpolated into it.
\<close>

datatype body =
    Json pyval
  | Html string "pyval list"
  | Text string
  | Redirect string
  | Attachment string string

record flask_response =
  body :: body
  status :: int
  extra_headers :: "(string \<times> string) list"

definition jsonify :: "pyval \<Rightarrow> int \<Rightarrow> flask_response" where
  "jsonify v code = \<lparr>body = Json v, status = code, extra_headers = []\<rparr>"

definition html :: "string \<Rightarrow> pyval list \<Rightarrow> flask_response" where
  "html page vs = \<lparr>body = Html page vs, status = 200, extra_headers = []\<rparr>"

definition redirect :: "string \<Rightarrow> flask_response" where
  "redirect target = \<lparr>body = Redirect target, status = 302, extra_headers = []\<rparr>"

text \<open>
  The state. \<open>users_db\<close>, \<open>secret_key\<close> and \<open>config\<close> are the module's own bindings
  (\<^verbatim>\<open>users_db\<close>, \<^verbatim>\<open>app.secret_key\<close>, \<^verbatim>\<open>app.config\<close>). \<open>session\<close> and \<open>flashes\<close>
  belong to the client of the request: the framework keeps them in the client's cookie
  (the flashed messages under a key of its own). \<open>fs\<close> is the file system, a file name
  mapped to the JSON document written to it.
\<close>

type_synonym user = "(string \<times> pyval) list"

record state =
  users_db :: "user list"
  secret_key :: string
  config :: "(string \<times> pyval) list"
  session :: "(string \<times> string) list"
  flashes :: "(string \<times> string) list"
  fs :: "(string \<times> pyval) list"

type_synonym outcome = "(py_exn + flask_response) \<times> state"

definition flash :: "string \<Rightarrow> string \<Rightarrow> state \<Rightarrow> state" where
  "flash message category s = s\<lparr>flashes := flashes s @ [(category, message)]\<rparr>"

definition users_db0 :: "user list" where
  "users_db0 =
     [[(''id'', PInt 1), (''name'', PStr ''Alice Johnson''),
       (''email'', PStr ''alice@example.com''), (''age'', PInt 28)],
      [(''id'', PInt 2), (''name'', PStr ''Bob Smith''),
       (''email'', PStr ''bob@example.com''), (''age'', PInt 32)],
      [(''id'', PInt 3), (''name'', PStr ''Charlie Brown''),
       (''email'', PStr ''charlie@example.com''), (''age'', PInt 25)]]"

subsection \<open>Python operations the handlers use\<close>

text \<open>
  \<^verbatim>\<open>v == n\<close> for an integer \<open>n\<close>: a \<^verbatim>\<open>bool\<close> is an \<^verbatim>\<open>int\<close> in Python and a
  \<^verbatim>\<open>float\<close> is compared by value; a value of any other type is unequal.
\<close>

fun py_eq_int :: "pyval \<Rightarrow> int \<Rightarrow> bool" where
  "py_eq_int (PInt n) i = (n = i)"
| "py_eq_int (PBool b) i = ((if b then 1 else 0) = i)"
| "py_eq_int (PFloat x) i = (x = of_int i)"
| "py_eq_int _ i = False"

text \<open>\<^verbatim>\<open>p in s\<close> on strings: \<open>p\<close> occurs in \<open>s\<close> as a contiguous piece.\<close>

fun is_substring :: "string \<Rightarrow> string \<Rightarrow> bool" where
  "is_substring p [] = (p = [])"
| "is_substring p (c # cs) = (startswith (c # cs) p \<or> is_substring p cs)"

text \<open>
  \<^verbatim>\<open>k in data\<close> for a string \<open>k\<close>: a key of a dictionary, an element of a list, a
  piece of a string; any other operand is not iterable.
\<close>

fun py_in :: "string \<Rightarrow> pyval \<Rightarrow> py_exn + bool" where
  "py_in k (PDict kvs) = Inr (map_of kvs k \<noteq> None)"
| "py_in k (PList xs) = Inr (PStr k \<in> set xs)"
| "py_in k (PStr s) = Inr (is_substring k s)"
| "py_in k _ = Inl TypeError"

text \<open>\<^verbatim>\<open>data[k]\<close> for a string \<open>k\<close>: only a dictionary can be indexed by a string.\<close>

fun py_getitem :: "pyval \<Rightarrow> string \<Rightarrow> py_exn + pyval" where
  "py_getitem (PDict kvs) k = (case map_of kvs k of None \<Rightarrow> Inl (KeyError k) | Some v \<Rightarrow> Inr v)"
| "py_getitem _ k = Inl TypeError"

text \<open>\<^verbatim>\<open>data.get(k, d)\<close> and \<^verbatim>\<open>data.items()\<close> exist on dictionaries only.\<close>

fun py_get :: "pyval \<Rightarrow> string \<Rightarrow> pyval \<Rightarrow> py_exn + pyval" where
  "py_get (PDict kvs) k d = (case map_of kvs k of None \<Rightarrow> Inr d | Some v \<Rightarrow> Inr v)"
| "py_get _ k d = Inl AttributeError"

fun py_items :: "pyval \<Rightarrow> py_exn + (string \<times> pyval) list" where
  "py_items (PDict kvs) = Inr kvs"
| "py_items _ = Inl AttributeError"

text \<open>
  Building a dictionary from pairs in order (a dict comprehension) and
  \<^verbatim>\<open>d.update(e)\<close>: a key that is present keeps its place and takes the new value, a
  new key goes to the end.
\<close>

definition dict_of :: "(string \<times> pyval) list \<Rightarrow> (string \<times> pyval) list" where
  "dict_of kvs = foldl (\<lambda>d (k, v). AList.update k v d) [] kvs"

definition dict_update :: "(string \<times> pyval) list \<Rightarrow> (string \<times> pyval) list \<Rightarrow> (string \<times> pyval) list" where
  "dict_update d e = foldl (\<lambda>d (k, v). AList.update k v d) d e"

text \<open>
  \<^verbatim>\<open>max(vs) + 1\<close> on a non-empty list. Integers and booleans are compared as
  integers and the sum is an integer. A string, \<^verbatim>\<open>None\<close>, a list or a dictionary among
  the values ends in \<^verbatim>\<open>TypeError\<close>, in the comparison or in the addition; so does, in
  this model, a float, whose arithmetic is not modelled (no value stored under
  \<^verbatim>\<open>'id'\<close> is ever a float, see \<open>users_wf\<close>).
\<close>

fun as_int :: "pyval \<Rightarrow> int option" where
  "as_int (PInt n) = Some n"
| "as_int (PBool b) = Some (if b then 1 else 0)"
| "as_int _ = None"

definition max_plus_one :: "pyval list \<Rightarrow> py_exn + pyval" where
  "max_plus_one vs =
     (if list_all (\<lambda>v. as_int v \<noteq> None) vs
      then Inr (PInt (Max (set (map (\<lambda>v. the (as_int v)) vs)) + 1))
      else Inl TypeError)"

text \<open>Decimal digits of a number, as an f-string prints it.\<close>

fun str_nat :: "nat \<Rightarrow> string" where
  "str_nat n = (if n < 10 then [char_of (48 + n)] else str_nat (n div 10) @ [char_of (48 + n mod 10)])"

definition str_int :: "int \<Rightarrow> string" where
  "str_int i = (if i < 0 then ''-'' @ str_nat (nat (- i)) else str_nat (nat i))"

text \<open>\<^verbatim>\<open>d.get(k)\<close>, \<^verbatim>\<open>d.get(k, default)\<close> and \<^verbatim>\<open>d.get(k, default, type=int)\<close> on the
  request's string dictionaries.\<close>

definition get_or :: "(string \<times> string) list \<Rightarrow> string \<Rightarrow> string \<Rightarrow> string" where
  "get_or d k dflt = (case map_of d k of None \<Rightarrow> dflt | Some v \<Rightarrow> v)"

definition get_int :: "request \<Rightarrow> (string \<times> string) list \<Rightarrow> string \<Rightarrow> int option" where
  "get_int rq d k = (case map_of d k of None \<Rightarrow> None | Some v \<Rightarrow> to_int rq v)"

definition opt_str :: "string option \<Rightarrow> pyval" where
  "opt_str x = (case x of None \<Rightarrow> PNone | Some v \<Rightarrow> PStr v)"

definition opt_int :: "int option \<Rightarrow> pyval" where
  "opt_int x = (case x of None \<Rightarrow> PNone | Some n \<Rightarrow> PInt n)"

subsection \<open>Routes 1 to 5: pages, methods, query parameters, forms, uploads\<close>

text \<open>
  A view function that reaches the end of its body returns \<^verbatim>\<open>None\<close>, for which the
  framework raises \<^verbatim>\<open>TypeError\<close>.
\<close>

definition home :: "request \<Rightarrow> state \<Rightarrow> outcome" where
  "home rq s = (Inr (html ''home'' []), s)"

definition hello :: "request \<Rightarrow> state \<Rightarrow> outcome" where
  "hello rq s = (Inr (html ''hello'' []), s)"

definition hello_name :: "string \<Rightarrow> request \<Rightarrow> state \<Rightarrow> outcome" where
  "hello_name name rq s = (Inr (html ''hello_name'' [PStr name]), s)"

definition user_profile :: "string \<Rightarrow> request \<Rightarrow> state \<Rightarrow> outcome" where
  "user_profile username rq s = (Inr (html ''user_profile'' [PStr username, PStr (now_str rq)]), s)"

definition handle_data :: "request \<Rightarrow> state \<Rightarrow> outcome" where
  "handle_data rq s =
     (if http_method rq = ''GET'' then
        (Inr (jsonify (PDict [(''message'', PStr ''GET request received''),
                              (''data'', PList [PStr ''item1'', PStr ''item2'', PStr ''item3''])]) 200), s)
      else if http_method rq = ''POST'' then
        (case get_json rq of
           Inl e \<Rightarrow> (Inl e, s)
         | Inr data \<Rightarrow>
             (Inr (jsonify (PDict [(''message'', PStr ''POST request received''),
                                   (''received_data'', data),
                                   (''timestamp'', PStr (now_iso rq))]) 201), s))
      else if http_method rq = ''PUT'' then
        (case get_json rq of
           Inl e \<Rightarrow> (Inl e, s)
         | Inr data \<Rightarrow>
             (Inr (jsonify (PDict [(''message'', PStr ''PUT request received''),
                                   (''updated_data'', data)]) 200), s))
      else if http_method rq = ''DELETE'' then
        (Inr (jsonify (PDict [(''message'', PStr ''DELETE request received''),
                              (''status'', PStr ''deleted'')]) 200), s)
      else (Inl TypeError, s))"

definition search :: "request \<Rightarrow> state \<Rightarrow> outcome" where
  "search rq s =
     (let query = get_or (args rq) ''q'' [];
          page = (case get_int rq (args rq) ''page'' of None \<Rightarrow> 1 | Some n \<Rightarrow> n);
          per_page = (case get_int rq (args rq) ''per_page'' of None \<Rightarrow> 10 | Some n \<Rightarrow> n);
          results = map (\<lambda>i. PStr (''Result '' @ str_int i @ '' for '' @ [CHR 0x27] @ query @ [CHR 0x27]))
                      [1..per_page]
      in (Inr (jsonify (PDict [(''query'', PStr query),
                               (''page'', PInt page),
                               (''per_page'', PInt per_page),
                               (''results'', PList results),
                               (''total'', PInt 100)]) 200), s))"

definition form_example :: "request \<Rightarrow> state \<Rightarrow> outcome" where
  "form_example rq s =
     (if http_method rq = ''GET'' then (Inr (html ''form'' []), s)
      else if http_method rq = ''POST'' then
        (let name = map_of (form rq) ''name'';
             email = map_of (form rq) ''email'';
             age = get_int rq (form rq) ''age'';
             message = map_of (form rq) ''message''
         in (Inr (html ''form_submitted'' [opt_str name, opt_str email, opt_int age, opt_str message]), s))
      else (Inl TypeError, s))"

definition upload_file :: "request \<Rightarrow> state \<Rightarrow> outcome" where
  "upload_file rq s =
     (if http_method rq = ''GET'' then (Inr (html ''upload_form'' []), s)
      else if http_method rq = ''POST'' then
        (case map_of (files rq) ''file'' of
           None \<Rightarrow> (Inr \<lparr>body = Text ''No file selected'', status = 400, extra_headers = []\<rparr>, s)
         | Some (filename, ctype) \<Rightarrow>
             (let description = get_or (form rq) ''description'' [] in
              if filename = [] then
                (Inr \<lparr>body = Text ''No file selected'', status = 400, extra_headers = []\<rparr>, s)
              else
                (Inr (html ''upload_ok'' [PStr filename, PStr ctype, PStr description]), s)))
      else (Inl TypeError, s))"

subsection \<open>Route 6: session management\<close>

text \<open>\<^verbatim>\<open>if username and password\<close>: both present and not empty.\<close>

definition nonempty :: "string option \<Rightarrow> bool" where
  "nonempty x = (case x of None \<Rightarrow> False | Some v \<Rightarrow> v \<noteq> [])"

definition login :: "request \<Rightarrow> state \<Rightarrow> outcome" where
  "login rq s =
     (if http_method rq = ''GET'' then
        (case map_of (session s) ''username'' of
           Some u \<Rightarrow> (Inr (html ''already_logged_in'' [PStr u]), s)
         | None \<Rightarrow> (Inr (html ''login_form'' []), s))
      else if http_method rq = ''POST'' then
        (let username = map_of (form rq) ''username'';
             password = map_of (form rq) ''password''
         in if nonempty username \<and> nonempty password then
              (let s1 = s\<lparr>session := AList.update ''username'' (the username) (session s)\<rparr>;
                   s2 = s1\<lparr>session := AList.update ''login_time'' (now_iso rq) (session s1)\<rparr>;
                   s3 = flash ''Login successful!'' ''success'' s2
               in (Inr (redirect ''/profile''), s3))
            else
              (Inr (redirect ''/login''), flash ''Invalid credentials!'' ''error'' s))
      else (Inl TypeError, s))"

definition profile :: "request \<Rightarrow> state \<Rightarrow> outcome" where
  "profile rq s =
     (case map_of (session s) ''username'' of
        None \<Rightarrow> (Inr (redirect ''/login''), flash ''Please log in first!'' ''error'' s)
      | Some u \<Rightarrow>
          (Inr (html ''profile'' [PStr u, PStr (get_or (session s) ''login_time'' ''Unknown'')]), s))"

definition logout :: "request \<Rightarrow> state \<Rightarrow> outcome" where
  "logout rq s =
     (let s1 = s\<lparr>session := AList.delete ''username'' (session s)\<rparr>;
          s2 = s1\<lparr>session := AList.delete ''login_time'' (session s1)\<rparr>;
          s3 = flash ''You have been logged out!'' ''info'' s2
      in (Inr (redirect ''/''), s3))"

subsection \<open>Route 7: the REST API over \<^verbatim>\<open>users_db\<close>\<close>

definition not_found_404 :: flask_response where
  "not_found_404 = jsonify (PDict [(''error'', PStr ''User not found'')]) 404"

text \<open>
  \<^verbatim>\<open>next((u for u in users_db if u['id'] == user_id), None)\<close>: the scan stops at the
  first match, and reading \<^verbatim>\<open>u['id']\<close> from a dictionary without that key raises
  \<^verbatim>\<open>KeyError\<close>. The result is the position of the match: the handlers go on with the
  dictionary that sits there, which \<^verbatim>\<open>update_user\<close> changes in place. (No dictionary
  is stored at two positions: every element is a literal of its own or built afresh by
  \<^verbatim>\<open>create_user\<close>.)
\<close>

fun find_user :: "int \<Rightarrow> user list \<Rightarrow> py_exn + nat option" where
  "find_user user_id [] = Inr None"
| "find_user user_id (u # us) =
     (case map_of u ''id'' of
        None \<Rightarrow> Inl (KeyError ''id'')
      | Some v \<Rightarrow>
          if py_eq_int v user_id then Inr (Some 0)
          else (case find_user user_id us of
                  Inl e \<Rightarrow> Inl e
                | Inr None \<Rightarrow> Inr None
                | Inr (Some i) \<Rightarrow> Inr (Some (Suc i))))"

text \<open>\<^verbatim>\<open>if user:\<close> on the result: \<^verbatim>\<open>None\<close> and the empty dictionary are false.\<close>

definition found :: "user list \<Rightarrow> nat option \<Rightarrow> bool" where
  "found db r = (case r of None \<Rightarrow> False | Some i \<Rightarrow> db ! i \<noteq> [])"

definition get_users :: "request \<Rightarrow> state \<Rightarrow> outcome" where
  "get_users rq s =
     (Inr (jsonify (PDict [(''users'', PList (map PDict (users_db s))),
                           (''total'', PInt (int (length (users_db s))))]) 200), s)"

definition get_user :: "int \<Rightarrow> request \<Rightarrow> state \<Rightarrow> outcome" where
  "get_user user_id rq s =
     (case find_user user_id (users_db s) of
        Inl e \<Rightarrow> (Inl e, s)
      | Inr r \<Rightarrow>
          if found (users_db s) r then (Inr (jsonify (PDict (users_db s ! the r)) 200), s)
          else (Inr not_found_404, s))"

text \<open>\<^verbatim>\<open>not data or 'name' not in data or 'email' not in data\<close>, left to right.\<close>

definition lacks_name_or_email :: "pyval \<Rightarrow> py_exn + bool" where
  "lacks_name_or_email data =
     (if \<not> truthy data then Inr True
      else case py_in ''name'' data of
             Inl e \<Rightarrow> Inl e
           | Inr False \<Rightarrow> Inr True
           | Inr True \<Rightarrow>
               (case py_in ''email'' data of Inl e \<Rightarrow> Inl e | Inr b \<Rightarrow> Inr (\<not> b)))"

text \<open>\<^verbatim>\<open>[u['id'] for u in users_db]\<close>.\<close>

fun ids_of :: "user list \<Rightarrow> py_exn + pyval list" where
  "ids_of [] = Inr []"
| "ids_of (u # us) =
     (case map_of u ''id'' of
        None \<Rightarrow> Inl (KeyError ''id'')
      | Some v \<Rightarrow> (case ids_of us of Inl e \<Rightarrow> Inl e | Inr vs \<Rightarrow> Inr (v # vs)))"

text \<open>\<^verbatim>\<open>max([u['id'] for u in users_db]) + 1 if users_db else 1\<close>.\<close>

definition next_id :: "user list \<Rightarrow> py_exn + pyval" where
  "next_id db =
     (if db \<noteq> [] then (case ids_of db of Inl e \<Rightarrow> Inl e | Inr vs \<Rightarrow> max_plus_one vs)
      else Inr (PInt 1))"

text \<open>The dictionary literal \<^verbatim>\<open>new_user\<close>, its values computed in the order written.\<close>

definition new_user :: "user list \<Rightarrow> pyval \<Rightarrow> py_exn + user" where
  "new_user db data =
     (case next_id db of
        Inl e \<Rightarrow> Inl e
      | Inr i \<Rightarrow>
          (case py_getitem data ''name'' of
             Inl e \<Rightarrow> Inl e
           | Inr n \<Rightarrow>
               (case py_getitem data ''email'' of
                  Inl e \<Rightarrow> Inl e
                | Inr m \<Rightarrow>
                    (case py_get data ''age'' (PInt 0) of
                       Inl e \<Rightarrow> Inl e
                     | Inr a \<Rightarrow>
                         Inr [(''id'', i), (''name'', n), (''email'', m), (''age'', a)]))))"

definition create_user :: "request \<Rightarrow> state \<Rightarrow> outcome" where
  "create_user rq s =
     (case get_json rq of
        Inl e \<Rightarrow> (Inl e, s)
      | Inr data \<Rightarrow>
          (case lacks_name_or_email data of
             Inl e \<Rightarrow> (Inl e, s)
           | Inr True \<Rightarrow>
               (Inr (jsonify (PDict [(''error'', PStr ''Name and email are required'')]) 400), s)
           | Inr False \<Rightarrow>
               (case new_user (users_db s) data of
                  Inl e \<Rightarrow> (Inl e, s)
                | Inr u \<Rightarrow>
                    (Inr (jsonify (PDict u) 201), s\<lparr>users_db := users_db s @ [u]\<rparr>))))"

text \<open>
  \<^verbatim>\<open>{k: v for k, v in data.items() if k in ['name', 'email', 'age']}\<close>, the changes
  that \<^verbatim>\<open>update_user\<close> applies.
\<close>

definition allowed_changes :: "(string \<times> pyval) list \<Rightarrow> (string \<times> pyval) list" where
  "allowed_changes items =
     dict_of (filter (\<lambda>(k, v). k \<in> set [''name'', ''email'', ''age'']) items)"

definition update_user :: "int \<Rightarrow> request \<Rightarrow> state \<Rightarrow> outcome" where
  "update_user user_id rq s =
     (case find_user user_id (users_db s) of
        Inl e \<Rightarrow> (Inl e, s)
      | Inr r \<Rightarrow>
          if \<not> found (users_db s) r then (Inr not_found_404, s)
          else
            (case get_json rq of
               Inl e \<Rightarrow> (Inl e, s)
             | Inr data \<Rightarrow>
                 if \<not> truthy data then
                   (Inr (jsonify (PDict [(''error'', PStr ''No data provided'')]) 400), s)
                 else
                   (case py_items data of
                      Inl e \<Rightarrow> (Inl e, s)
                    | Inr items \<Rightarrow>
                        (let i = the r;
                             user = dict_update (users_db s ! i) (allowed_changes items)
                         in (Inr (jsonify (PDict user) 200),
                             s\<lparr>users_db := (users_db s)[i := user]\<rparr>)))))"

text \<open>\<^verbatim>\<open>[u for u in users_db if u['id'] != user_id]\<close>.\<close>

fun without_user :: "int \<Rightarrow> user list \<Rightarrow> py_exn + user list" where
  "without_user user_id [] = Inr []"
| "without_user user_id (u # us) =
     (case map_of u ''id'' of
        None \<Rightarrow> Inl (KeyError ''id'')
      | Some v \<Rightarrow>
          (case without_user user_id us of
             Inl e \<Rightarrow> Inl e
           | Inr rest \<Rightarrow> Inr (if \<not> py_eq_int v user_id then u # rest else rest)))"

definition delete_user :: "int \<Rightarrow> request \<Rightarrow> state \<Rightarrow> outcome" where
  "delete_user user_id rq s =
     (case find_user user_id (users_db s) of
        Inl e \<Rightarrow> (Inl e, s)
      | Inr r \<Rightarrow>
          if \<not> found (users_db s) r then (Inr not_found_404, s)
          else
            (case without_user user_id (users_db s) of
               Inl e \<Rightarrow> (Inl e, s)
             | Inr db \<Rightarrow>
                 (Inr (jsonify (PDict [(''message'', PStr ''User deleted successfully'')]) 200),
                  s\<lparr>users_db := db\<rparr>)))"

subsection \<open>Routes 8 to 15: decorators, custom responses, templates, utilities\<close>

text \<open>The decorators \<^verbatim>\<open>require_auth\<close> and \<^verbatim>\<open>require_json\<close> wrap a view function.\<close>

definition require_auth :: "(request \<Rightarrow> state \<Rightarrow> outcome) \<Rightarrow> request \<Rightarrow> state \<Rightarrow> outcome" where
  "require_auth f rq s =
     (if map_of (session s) ''username'' = None
      then (Inr (jsonify (PDict [(''error'', PStr ''Authentication required'')]) 401), s)
      else f rq s)"

definition require_json :: "(request \<Rightarrow> state \<Rightarrow> outcome) \<Rightarrow> request \<Rightarrow> state \<Rightarrow> outcome" where
  "require_json f rq s =
     (if \<not> is_json rq
      then (Inr (jsonify (PDict [(''error'', PStr ''Content-Type must be application/json'')]) 400), s)
      else f rq s)"

definition protected_endpoint :: "request \<Rightarrow> state \<Rightarrow> outcome" where
  "protected_endpoint =
     require_auth (\<lambda>rq s.
       (case map_of (session s) ''username'' of
          None \<Rightarrow> (Inl (KeyError ''username''), s)
        | Some u \<Rightarrow>
            (Inr (jsonify (PDict [(''message'', PStr ''This is a protected endpoint''),
                                  (''user'', PStr u),
                                  (''timestamp'', PStr (now_iso rq))]) 200), s)))"

definition json_only_endpoint :: "request \<Rightarrow> state \<Rightarrow> outcome" where
  "json_only_endpoint =
     require_json (\<lambda>rq s.
       (case get_json rq of
          Inl e \<Rightarrow> (Inl e, s)
        | Inr data \<Rightarrow>
            (Inr (jsonify (PDict [(''message'', PStr ''JSON data received''),
                                  (''data'', data)]) 200), s)))"

text \<open>
  \<^verbatim>\<open>download_data\<close> writes the file and hands it to \<^verbatim>\<open>send_file\<close>. Both can fail
  with an \<^verbatim>\<open>OSError\<close> (\<^verbatim>\<open>FileNotFoundError\<close> is one); the second failure comes after
  the file is written.
\<close>

definition download_data :: "request \<Rightarrow> state \<Rightarrow> outcome" where
  "download_data rq s =
     (let data = PDict [(''users'', PList (map PDict (users_db s))),
                        (''generated_at'', PStr (now_iso rq)),
                        (''total_users'', PInt (int (length (users_db s))))];
          filename = ''users_data.json''
      in if \<not> fs_writable rq then (Inl OSError, s)
         else
           (let s1 = s\<lparr>fs := AList.update filename data (fs s)\<rparr> in
            if \<not> send_file_ok rq then (Inl OSError, s1)
            else
              (Inr \<lparr>body = Attachment filename ''users_data.json'', status = 200,
                    extra_headers = []\<rparr>, s1)))"

definition custom_response :: "request \<Rightarrow> state \<Rightarrow> outcome" where
  "custom_response rq s =
     (let response = jsonify (PDict [(''message'', PStr ''Custom response''),
                                     (''timestamp'', PStr (now_iso rq))]) 200;
          response = response\<lparr>extra_headers :=
                        AList.update ''X-Custom-Header'' ''CustomValue'' (extra_headers response)\<rparr>;
          response = response\<lparr>extra_headers :=
                        AList.update ''Cache-Control'' ''no-cache'' (extra_headers response)\<rparr>
      in (Inr response, s))"

definition template_example :: "request \<Rightarrow> state \<Rightarrow> outcome" where
  "template_example rq s =
     (Inr (html ''template_example''
             [PStr ''User Directory'', PStr (now_str rq),
              PList (map PDict (users_db s)), PInt (int (length (users_db s)))]), s)"

definition health_check :: "request \<Rightarrow> state \<Rightarrow> outcome" where
  "health_check rq s =
     (Inr (jsonify (PDict [(''status'', PStr ''healthy''),
                           (''timestamp'', PStr (now_iso rq)),
                           (''version'', PStr ''1.0.0''),
                           (''uptime'', PStr ''N/A''),
                           (''database'', PStr ''connected''),
                           (''memory_usage'', PStr ''N/A'')]) 200), s)"

definition endpoint_doc :: "string \<Rightarrow> string list \<Rightarrow> string \<Rightarrow> pyval" where
  "endpoint_doc p ms d =
     PDict [(''path'', PStr p), (''methods'', PList (map PStr ms)), (''description'', PStr d)]"

definition api_docs :: "request \<Rightarrow> state \<Rightarrow> outcome" where
  "api_docs rq s =
     (let docs = PDict
        [(''title'', PStr ''Flask Example API''),
         (''version'', PStr ''1.0.0''),
         (''description'', PStr ''Comprehensive Flask application demonstrating various features''),
         (''endpoints'', PList
            [endpoint_doc ''/api/users'' [''GET'', ''POST''] ''Get all users or create new user'',
             endpoint_doc ''/api/users/<id>'' [''GET'', ''PUT'', ''DELETE'']
               ''Get, update, or delete specific user'',
             endpoint_doc ''/api/protected'' [''GET''] ''Protected endpoint requiring authentication'',
             endpoint_doc ''/health'' [''GET''] ''Health check endpoint''])]
      in (Inr (jsonify docs 200), s))"

subsection \<open>The route table\<close>

text \<open>
  One constructor for each function registered with \<^verbatim>\<open>@app.route\<close>, carrying the
  values the URL pattern binds; \<open>run\<close> calls the view function.
\<close>

datatype route =
    Home | Hello | Hello_name string | User_profile string | Handle_data | Search
  | Form_example | Upload_file | Login | Profile | Logout
  | Get_users | Get_user int | Create_user | Update_user int | Delete_user int
  | Protected_endpoint | Json_only_endpoint
  | Download_data | Custom_response | Template_example | Health_check | Api_docs

fun run :: "route \<Rightarrow> request \<Rightarrow> state \<Rightarrow> outcome" where
  "run Home = home"
| "run Hello = hello"
| "run (Hello_name name) = hello_name name"
| "run (User_profile username) = user_profile username"
| "run Handle_data = handle_data"
| "run Search = search"
| "run Form_example = form_example"
| "run Upload_file = upload_file"
| "run Login = login"
| "run Profile = profile"
| "run Logout = logout"
| "run Get_users = get_users"
| "run (Get_user user_id) = get_user user_id"
| "run Create_user = create_user"
| "run (Update_user user_id) = update_user user_id"
| "run (Delete_user user_id) = delete_user user_id"
| "run Protected_endpoint = protected_endpoint"
| "run Json_only_endpoint = json_only_endpoint"
| "run Download_data = download_data"
| "run Custom_response = custom_response"
| "run Template_example = template_example"
| "run Health_check = health_check"
| "run Api_docs = api_docs"

section \<open>Notions the properties are stated with\<close>

subsection \<open>Well-formed user lists\<close>

text \<open>
  Every element of \<^verbatim>\<open>users_db\<close> has an integer under \<^verbatim>\<open>'id'\<close>: the three literals
  do, \<^verbatim>\<open>create_user\<close> stores one, and no handler changes or removes the key.
  \<open>int_ids\<close> lists the integer ids that are present.
\<close>

definition has_int_id :: "user \<Rightarrow> bool" where
  "has_int_id u = (case map_of u ''id'' of Some (PInt n) \<Rightarrow> True | _ \<Rightarrow> False)"

definition users_wf :: "user list \<Rightarrow> bool" where
  "users_wf db = list_all has_int_id db"

definition int_id :: "user \<Rightarrow> int option" where
  "int_id u = (case map_of u ''id'' of Some (PInt n) \<Rightarrow> Some n | _ \<Rightarrow> None)"

definition int_ids :: "user list \<Rightarrow> int list" where
  "int_ids db = List.map_filter int_id db"

text \<open>The greatest id plus one, or 1 when there is no user.\<close>

definition fresh_id :: "user list \<Rightarrow> int" where
  "fresh_id db = (if db = [] then 1 else Max (set (int_ids db)) + 1)"

subsection \<open>Effects of a call\<close>





subsection \<open>Concrete inputs\<close>

text \<open>A network on which every request is refused, and a world with no output yet.\<close>

definition refusing :: transport where
  "refusing m u = Inl (Exc [ConnectionError, RequestException] ''connection refused'' None)"

definition world0 :: world where
  "world0 = \<lparr>printed = [], sent = []\<rparr>"









text \<open>
  The application after import with none of the environment variables set, before any
  client has logged in, and a request with a form and a JSON body.
\<close>

definition state0 :: state where
  "state0 =
     \<lparr>users_db = users_db0,
      secret_key = ''dev-secret-key'',
      config = [(''SECRET_KEY'', PStr ''dev-secret-key''),
                (''DATABASE_URL'', PStr ''sqlite:///app.db''),
                (''DEBUG'', PBool False),
                (''MAX_CONTENT_LENGTH'', PInt 16777216)],
      session = [],
      flashes = [],
      fs = []\<rparr>"

definition request0 :: request where
  "request0 =
     \<lparr>http_method = ''POST'',
      path = ''/'',
      args = [],
      form = [(''username'', ''alice''), (''password'', ''secret'')],
      files = [],
      get_json = Inr (PDict [(''name'', PStr ''Dora''), (''email'', PStr ''dora@example.com''),
                             (''id'', PInt 1), (''role'', PStr ''admin'')]),
      is_json = True,
      to_int = (\<lambda>v. None),
      now_iso = ''2024-01-01T00:00:00'',
      now_str = ''2024-01-01 00:00:00'',
      fs_writable = True,
      send_file_ok = True\<rparr>"

section \<open>Requests.py: verified properties\<close>

subsection \<open>Stripping slashes\<close>

lemma takeWhile_same:
  "takeWhile (\<lambda>x. x = c) s = replicate (length (takeWhile (\<lambda>x. x = c) s)) c"
  by (induction s) auto

lemma lstrip_split:
  "\<exists>n. s = replicate n c @ lstrip [c] s \<and> (lstrip [c] s = [] \<or> hd (lstrip [c] s) \<noteq> c)"
proof -
  let ?P = "\<lambda>x. x = c"
  have a: "s = replicate (length (takeWhile ?P s)) c @ dropWhile ?P s"
    using takeWhile_same[of c s] by (metis takeWhile_dropWhile_id)
  have b: "dropWhile ?P s = [] \<or> hd (dropWhile ?P s) \<noteq> c"
    using hd_dropWhile[of ?P s] by auto
  from a b show ?thesis unfolding lstrip_def by auto
qed

lemma rstrip_split:
  "\<exists>n. s = rstrip [c] s @ replicate n c \<and> (rstrip [c] s = [] \<or> last (rstrip [c] s) \<noteq> c)"
proof -
  obtain n where n: "rev s = replicate n c @ lstrip [c] (rev s)"
    and h: "lstrip [c] (rev s) = [] \<or> hd (lstrip [c] (rev s)) \<noteq> c"
    using lstrip_split[of "rev s" c] by blast
  have r: "rstrip [c] s = rev (lstrip [c] (rev s))"
    by (simp add: rstrip_def lstrip_def)
  from n have "rev (rev s) = rev (replicate n c @ lstrip [c] (rev s))" by simp
  then have a: "s = rstrip [c] s @ replicate n c" by (simp add: r)
  from h have b: "rstrip [c] s = [] \<or> last (rstrip [c] s) \<noteq> c"
    by (auto simp: r last_rev)
  from a b show ?thesis by blast
qed

lemma lstrip_replicate_append: "lstrip [c] (replicate n c @ s) = lstrip [c] s"
  unfolding lstrip_def by (induction n) simp_all

lemma rstrip_append_replicate: "rstrip [c] (s @ replicate n c) = rstrip [c] s"
  using lstrip_replicate_append[of c n "rev s"] by (simp add: rstrip_def lstrip_def)

subsection \<open>The URL of an \<^verbatim>\<open>APIClient\<close> request\<close>

lemma sent_APIClient_make_request:
  "sent (snd (APIClient_make_request tr self meth e w)) = sent w @ [(meth, request_url self e)]"
  by (simp add: APIClient_make_request_def send_def print_def Let_def split: sum.splits)

lemma request_url_init:
  "request_url (APIClient_init b k t) e = rstrip ''/'' b @ ''/'' @ lstrip ''/'' e"
  by (simp add: request_url_def APIClient_init_def)

text \<open>
  Claim C10. Whatever the base URL \<open>b\<close> and the endpoint \<open>e\<close>, the one request that
  \<^verbatim>\<open>_make_request\<close> sends goes to \<open>b'\<close>, a slash, \<open>e'\<close>, where \<open>b'\<close> is \<open>b\<close> without
  its trailing slashes and \<open>e'\<close> is \<open>e\<close> without its leading slashes. Hence adding
  slashes at the end of the base URL and at the front of the endpoint does not change
  the URL requested.
\<close>

theorem APIClient_url_join:
  "(\<exists>n m b' e'. b = b' @ replicate n (CHR ''/'') \<and> (b' = [] \<or> last b' \<noteq> CHR ''/'') \<and>
       e = replicate m (CHR ''/'') @ e' \<and> (e' = [] \<or> hd e' \<noteq> CHR ''/'') \<and>
       sent (snd (APIClient_make_request tr (APIClient_init b k t) meth e w))
         = sent w @ [(meth, b' @ ''/'' @ e')])
   \<and> sent (snd (APIClient_make_request tr
              (APIClient_init (b @ replicate i (CHR ''/'')) k t) meth (replicate j (CHR ''/'') @ e) w))
     = sent (snd (APIClient_make_request tr (APIClient_init b k t) meth e w))"
proof
  obtain n where n: "b = rstrip ''/'' b @ replicate n (CHR ''/'')"
    and nb: "rstrip ''/'' b = [] \<or> last (rstrip ''/'' b) \<noteq> CHR ''/''"
    using rstrip_split[of b "CHR ''/''"] by blast
  obtain m where m: "e = replicate m (CHR ''/'') @ lstrip ''/'' e"
    and me: "lstrip ''/'' e = [] \<or> hd (lstrip ''/'' e) \<noteq> CHR ''/''"
    using lstrip_split[of e "CHR ''/''"] by blast
  have "sent (snd (APIClient_make_request tr (APIClient_init b k t) meth e w))
          = sent w @ [(meth, rstrip ''/'' b @ ''/'' @ lstrip ''/'' e)]"
    by (simp only: sent_APIClient_make_request request_url_init)
  with n nb m me
  show "\<exists>n m b' e'. b = b' @ replicate n (CHR ''/'') \<and> (b' = [] \<or> last b' \<noteq> CHR ''/'') \<and>
       e = replicate m (CHR ''/'') @ e' \<and> (e' = [] \<or> hd e' \<noteq> CHR ''/'') \<and>
       sent (snd (APIClient_make_request tr (APIClient_init b k t) meth e w))
         = sent w @ [(meth, b' @ ''/'' @ e')]"
    by blast
next
  show "sent (snd (APIClient_make_request tr
              (APIClient_init (b @ replicate i (CHR ''/'')) k t) meth (replicate j (CHR ''/'') @ e) w))
     = sent (snd (APIClient_make_request tr (APIClient_init b k t) meth e w))"
    by (simp only: sent_APIClient_make_request request_url_init
          rstrip_append_replicate lstrip_replicate_append)
qed

theorem APIClient_url_join_witness:
  "sent (snd (APIClient_make_request refusing (APIClient_init ''http://h///'' None 30) ''GET''
            ''//posts'' world0))
     = [(''GET'', ''http://h/posts'')]"
proof -
  have "sent (snd (APIClient_make_request refusing
            (APIClient_init (''http://h/'' @ replicate 2 (CHR ''/'')) None 30) ''GET''
            (replicate 1 (CHR ''/'') @ ''/posts'') world0))
     = sent (snd (APIClient_make_request refusing (APIClient_init ''http://h/'' None 30) ''GET''
            ''/posts'' world0))"
    using APIClient_url_join[of "''http://h/''" "''/posts''" refusing None 30 "''GET''" world0 2 1]
    by (rule conjunct2)
  also have "\<dots> = [(''GET'', ''http://h/posts'')]"
    by (simp add: APIClient_make_request_def send_def print_def refusing_def isinstance_def
        request_url_def APIClient_init_def rstrip_def lstrip_def world0_def)
  finally show ?thesis by (simp add: numeral_2_eq_2)
qed

subsection \<open>The retry configuration\<close>

text \<open>
  On every library the function leaves the world as it was: it sends no request and
  prints nothing. On a library whose \<^verbatim>\<open>Retry\<close> takes the four keywords of the call
  (urllib3 before 2.0) it returns a session with one adapter on both prefixes, whose
  retry policy has a total of 3, the status codes 429, 500, 502, 503 and 504, the
  methods HEAD, GET and OPTIONS and backoff factor 1.
\<close>

lemma create_session_with_retries_world:
  "snd (create_session_with_retries lib w) = w"
  by (simp add: create_session_with_retries_def Let_def split: sum.splits)

lemma create_session_with_retries_accepted:
  assumes "list_all (\<lambda>k. k \<in> set lib)
             [''total'', ''status_forcelist'', ''method_whitelist'', ''backoff_factor'']"
  shows "create_session_with_retries lib w =
     (let adapter = HTTPAdapter \<lparr>total = 3, status_forcelist = [429, 500, 502, 503, 504],
                       method_whitelist = [''HEAD'', ''GET'', ''OPTIONS''], backoff_factor = 1\<rparr>
      in (Inr \<lparr>adapters = [(''https://'', adapter), (''http://'', adapter)]\<rparr>, w))"
  using assms by (simp add: create_session_with_retries_def Retry_def Session_def mount_def Let_def)

lemma create_session_with_retries_rejected:
  assumes "''method_whitelist'' \<notin> set lib"
  shows "create_session_with_retries lib w = (Inl TypeError, w)"
  using assms by (simp add: create_session_with_retries_def Retry_def Let_def)

lemma create_session_with_retries_urllib3_1:
  "create_session_with_retries urllib3_1_25 w = create_session_with_retries urllib3_1_26 w \<and>
   fst (create_session_with_retries urllib3_1_25 w) \<noteq> Inl TypeError"
  by (simp add: create_session_with_retries_def Retry_def Session_def mount_def Let_def
      urllib3_1_25_def urllib3_1_26_def)

text \<open>
  Claim C4. With urllib3 2, whose \<^verbatim>\<open>Retry\<close> has no \<^verbatim>\<open>method_whitelist\<close>, the call
  \<^verbatim>\<open>Retry(..., method_whitelist=[...])\<close> raises \<^verbatim>\<open>TypeError\<close> and
  \<^verbatim>\<open>create_session_with_retries\<close> returns no session: nothing is mounted on
  \<^verbatim>\<open>http://\<close> or \<^verbatim>\<open>https://\<close>.
\<close>

theorem create_session_with_retries_urllib3_2:
  "create_session_with_retries urllib3_2 world0 = (Inl TypeError, world0)"
  by (rule create_session_with_retries_rejected) (simp add: urllib3_2_def)

subsection \<open>The rate limiter\<close>










section \<open>Flask.py: verified properties\<close>

subsection \<open>Scanning a well-formed user list\<close>

lemma has_int_idE: "has_int_id u \<Longrightarrow> \<exists>n. map_of u ''id'' = Some (PInt n)"
  by (auto simp: has_int_id_def split: option.splits pyval.splits)

lemma has_int_id_nonempty: "has_int_id u \<Longrightarrow> u \<noteq> []"
  by (auto simp: has_int_id_def)

lemma users_wf_Cons: "users_wf (u # us) = (has_int_id u \<and> users_wf us)"
  by (simp add: users_wf_def)

lemma users_wf_nth: "users_wf db \<Longrightarrow> i < length db \<Longrightarrow> has_int_id (db ! i)"
  by (simp add: users_wf_def list_all_length)

lemma find_user_wf:
  "users_wf db \<Longrightarrow>
   (\<exists>i. find_user uid db = Inr (Some i) \<and> i < length db \<and>
        map_of (db ! i) ''id'' = Some (PInt uid) \<and>
        (\<forall>j<i. map_of (db ! j) ''id'' \<noteq> Some (PInt uid)) \<and>
        List.find (\<lambda>u. map_of u ''id'' = Some (PInt uid)) db = Some (db ! i))
   \<or> (find_user uid db = Inr None \<and> (\<forall>u\<in>set db. map_of u ''id'' \<noteq> Some (PInt uid)) \<and>
        List.find (\<lambda>u. map_of u ''id'' = Some (PInt uid)) db = None)"
proof (induction db)
  case Nil
  then show ?case by simp
next
  case (Cons u us)
  then have wf: "users_wf us" and hu: "has_int_id u" by (simp_all add: users_wf_Cons)
  from hu obtain n where n: "map_of u ''id'' = Some (PInt n)" by (auto dest: has_int_idE)
  show ?case
  proof (cases "n = uid")
    case True
    with n show ?thesis by simp
  next
    case False
    from Cons.IH[OF wf] show ?thesis
    proof
      assume "\<exists>i. find_user uid us = Inr (Some i) \<and> i < length us \<and>
        map_of (us ! i) ''id'' = Some (PInt uid) \<and>
        (\<forall>j<i. map_of (us ! j) ''id'' \<noteq> Some (PInt uid)) \<and>
        List.find (\<lambda>u. map_of u ''id'' = Some (PInt uid)) us = Some (us ! i)"
      then obtain i where i: "find_user uid us = Inr (Some i)" "i < length us"
        "map_of (us ! i) ''id'' = Some (PInt uid)"
        "\<forall>j<i. map_of (us ! j) ''id'' \<noteq> Some (PInt uid)"
        "List.find (\<lambda>u. map_of u ''id'' = Some (PInt uid)) us = Some (us ! i)" by blast
      have "\<forall>j<Suc i. map_of ((u # us) ! j) ''id'' \<noteq> Some (PInt uid)"
        using i(4) n False by (auto simp: nth_Cons split: nat.splits)
      with i n False show ?thesis by (intro disjI1 exI[of _ "Suc i"]) simp
    next
      assume "find_user uid us = Inr None \<and> (\<forall>u\<in>set us. map_of u ''id'' \<noteq> Some (PInt uid)) \<and>
        List.find (\<lambda>u. map_of u ''id'' = Some (PInt uid)) us = None"
      with n False show ?thesis by simp
    qed
  qed
qed

lemma without_user_wf:
  "users_wf db \<Longrightarrow>
   without_user uid db = Inr (filter (\<lambda>u. map_of u ''id'' \<noteq> Some (PInt uid)) db)"
proof (induction db)
  case Nil
  then show ?case by simp
next
  case (Cons u us)
  then have wf: "users_wf us" and hu: "has_int_id u" by (simp_all add: users_wf_Cons)
  from hu obtain n where n: "map_of u ''id'' = Some (PInt n)" by (auto dest: has_int_idE)
  with Cons.IH[OF wf] show ?case by simp
qed

lemma ids_of_wf:
  "users_wf db \<Longrightarrow> ids_of db = Inr (map PInt (int_ids db)) \<and> length (int_ids db) = length db"
proof (induction db)
  case Nil
  then show ?case by (simp add: int_ids_def map_filter_simps)
next
  case (Cons u us)
  then have wf: "users_wf us" and hu: "has_int_id u" by (simp_all add: users_wf_Cons)
  from hu obtain n where n: "map_of u ''id'' = Some (PInt n)" by (auto dest: has_int_idE)
  with Cons.IH[OF wf] show ?case by (simp add: int_ids_def map_filter_simps int_id_def)
qed

lemma next_id_wf:
  "users_wf db \<Longrightarrow>
   next_id db = Inr (PInt (if db = [] then 1 else Max (set (int_ids db)) + 1))"
proof (cases "db = []")
  case True
  then show ?thesis by (simp add: next_id_def)
next
  case False
  assume wf: "users_wf db"
  have "list_all (\<lambda>v. as_int v \<noteq> None) (map PInt (int_ids db))"
    by (simp add: list_all_iff)
  moreover have "map (\<lambda>v. the (as_int v)) (map PInt (int_ids db)) = int_ids db"
    by (simp add: comp_def)
  ultimately show ?thesis
    using False ids_of_wf[OF wf] by (simp add: next_id_def max_plus_one_def)
qed


subsection \<open>Looking a user up\<close>

text \<open>
  Claim C3. On a well-formed user list, \<^verbatim>\<open>get_user\<close> answers with the first element
  whose \<^verbatim>\<open>'id'\<close> is \<open>user_id\<close> (status 200) when there is one, and with the error
  \<^verbatim>\<open>User not found\<close> and status 404 when there is none; the state is unchanged.
\<close>

theorem get_user_first_match:
  assumes "users_wf (users_db s)"
  shows "get_user user_id rq s =
     (case List.find (\<lambda>u. map_of u ''id'' = Some (PInt user_id)) (users_db s) of
        Some u \<Rightarrow> (Inr (jsonify (PDict u) 200), s)
      | None \<Rightarrow> (Inr (jsonify (PDict [(''error'', PStr ''User not found'')]) 404), s))"
  using find_user_wf[OF assms, of user_id]
proof
  assume "\<exists>i. find_user user_id (users_db s) = Inr (Some i) \<and> i < length (users_db s) \<and>
        map_of (users_db s ! i) ''id'' = Some (PInt user_id) \<and>
        (\<forall>j<i. map_of (users_db s ! j) ''id'' \<noteq> Some (PInt user_id)) \<and>
        List.find (\<lambda>u. map_of u ''id'' = Some (PInt user_id)) (users_db s) = Some (users_db s ! i)"
  then obtain i where i: "find_user user_id (users_db s) = Inr (Some i)" "i < length (users_db s)"
    "List.find (\<lambda>u. map_of u ''id'' = Some (PInt user_id)) (users_db s) = Some (users_db s ! i)"
    by blast
  have "users_db s ! i \<noteq> []"
    using users_wf_nth[OF assms i(2)] by (rule has_int_id_nonempty)
  with i show ?thesis by (simp add: get_user_def found_def)
next
  assume "find_user user_id (users_db s) = Inr None \<and>
        (\<forall>u\<in>set (users_db s). map_of u ''id'' \<noteq> Some (PInt user_id)) \<and>
        List.find (\<lambda>u. map_of u ''id'' = Some (PInt user_id)) (users_db s) = None"
  then show ?thesis by (simp add: get_user_def found_def not_found_404_def)
qed

lemma users_wf_state0: "users_wf (users_db state0)"
  by (simp add: state0_def users_db0_def users_wf_def has_int_id_def)

theorem get_user_first_match_witness:
  "users_wf (users_db state0) \<and>
   get_user 2 request0 state0 =
     (Inr (jsonify (PDict [(''id'', PInt 2), (''name'', PStr ''Bob Smith''),
                           (''email'', PStr ''bob@example.com''), (''age'', PInt 32)]) 200), state0) \<and>
   get_user 7 request0 state0 =
     (Inr (jsonify (PDict [(''error'', PStr ''User not found'')]) 404), state0)"
proof -
  have wf: "users_wf (users_db state0)" by (rule users_wf_state0)
  have db: "users_db state0 = users_db0" by (simp add: state0_def)
  have a: "get_user 2 request0 state0 =
     (Inr (jsonify (PDict [(''id'', PInt 2), (''name'', PStr ''Bob Smith''),
                           (''email'', PStr ''bob@example.com''), (''age'', PInt 32)]) 200), state0)"
    using get_user_first_match[OF wf, of 2 request0] by (simp add: db users_db0_def)
  have b: "get_user 7 request0 state0 =
     (Inr (jsonify (PDict [(''error'', PStr ''User not found'')]) 404), state0)"
    using get_user_first_match[OF wf, of 7 request0] by (simp add: db users_db0_def)
  from wf a b show ?thesis by simp
qed

subsection \<open>Deleting a user\<close>

text \<open>
  Claim C6. On a well-formed user list, \<^verbatim>\<open>delete_user\<close> keeps exactly the elements
  whose \<^verbatim>\<open>'id'\<close> differs from \<open>user_id\<close>, in their order, and reports success when
  some element has that id; when none has, it answers 404 and the state is unchanged.
\<close>

theorem delete_user_total_atomic:
  assumes "users_wf (users_db s)"
  shows "delete_user user_id rq s =
     (if \<exists>u\<in>set (users_db s). map_of u ''id'' = Some (PInt user_id)
      then (Inr (jsonify (PDict [(''message'', PStr ''User deleted successfully'')]) 200),
            s\<lparr>users_db := filter (\<lambda>u. map_of u ''id'' \<noteq> Some (PInt user_id)) (users_db s)\<rparr>)
      else (Inr (jsonify (PDict [(''error'', PStr ''User not found'')]) 404), s))"
  using find_user_wf[OF assms, of user_id]
proof
  assume "\<exists>i. find_user user_id (users_db s) = Inr (Some i) \<and> i < length (users_db s) \<and>
        map_of (users_db s ! i) ''id'' = Some (PInt user_id) \<and>
        (\<forall>j<i. map_of (users_db s ! j) ''id'' \<noteq> Some (PInt user_id)) \<and>
        List.find (\<lambda>u. map_of u ''id'' = Some (PInt user_id)) (users_db s) = Some (users_db s ! i)"
  then obtain i where i: "find_user user_id (users_db s) = Inr (Some i)" "i < length (users_db s)"
    "map_of (users_db s ! i) ''id'' = Some (PInt user_id)"
    by blast
  have ne: "users_db s ! i \<noteq> []"
    using users_wf_nth[OF assms i(2)] by (rule has_int_id_nonempty)
  from i(2,3) have ex: "\<exists>u\<in>set (users_db s). map_of u ''id'' = Some (PInt user_id)"
    using nth_mem by blast
  from i(1) ne ex show ?thesis
    by (simp add: delete_user_def found_def without_user_wf[OF assms])
next
  assume "find_user user_id (users_db s) = Inr None \<and>
        (\<forall>u\<in>set (users_db s). map_of u ''id'' \<noteq> Some (PInt user_id)) \<and>
        List.find (\<lambda>u. map_of u ''id'' = Some (PInt user_id)) (users_db s) = None"
  then show ?thesis by (simp add: delete_user_def found_def not_found_404_def)
qed

theorem delete_user_total_atomic_witness:
  "users_wf (users_db state0) \<and>
   delete_user 2 request0 state0 =
     (Inr (jsonify (PDict [(''message'', PStr ''User deleted successfully'')]) 200),
      state0\<lparr>users_db :=
        [[(''id'', PInt 1), (''name'', PStr ''Alice Johnson''),
          (''email'', PStr ''alice@example.com''), (''age'', PInt 28)],
         [(''id'', PInt 3), (''name'', PStr ''Charlie Brown''),
          (''email'', PStr ''charlie@example.com''), (''age'', PInt 25)]]\<rparr>) \<and>
   delete_user 7 request0 state0 =
     (Inr (jsonify (PDict [(''error'', PStr ''User not found'')]) 404), state0)"
proof -
  have wf: "users_wf (users_db state0)" by (rule users_wf_state0)
  have db: "users_db state0 = users_db0" by (simp add: state0_def)
  have a: "delete_user 2 request0 state0 =
     (Inr (jsonify (PDict [(''message'', PStr ''User deleted successfully'')]) 200),
      state0\<lparr>users_db :=
        [[(''id'', PInt 1), (''name'', PStr ''Alice Johnson''),
          (''email'', PStr ''alice@example.com''), (''age'', PInt 28)],
         [(''id'', PInt 3), (''name'', PStr ''Charlie Brown''),
          (''email'', PStr ''charlie@example.com''), (''age'', PInt 25)]]\<rparr>)"
    using delete_user_total_atomic[OF wf, of 2 request0] by (simp add: db users_db0_def)
  have b: "delete_user 7 request0 state0 =
     (Inr (jsonify (PDict [(''error'', PStr ''User not found'')]) 404), state0)"
    using delete_user_total_atomic[OF wf, of 7 request0] by (simp add: db users_db0_def)
  from wf a b show ?thesis by simp
qed

subsection \<open>What a handler leaves alone\<close>

lemmas plain_defs =
  home_def hello_def hello_name_def user_profile_def handle_data_def search_def
  form_example_def upload_file_def profile_def get_users_def get_user_def
  protected_endpoint_def json_only_endpoint_def require_auth_def require_json_def
  download_data_def custom_response_def template_example_def health_check_def api_docs_def
  flash_def Let_def

lemmas session_defs = login_def logout_def

lemmas rest_defs = create_user_def update_user_def delete_user_def

lemma run_globals:
  "secret_key (snd (run r rq s)) = secret_key s \<and> config (snd (run r rq s)) = config s"
  by (cases r)
     (simp_all add: plain_defs session_defs rest_defs
        split: sum.splits option.splits bool.splits prod.splits)

lemma run_users_db:
  "users_db (snd (run r rq s)) = users_db s \<or> r = Create_user
     \<or> (\<exists>i. r = Update_user i) \<or> (\<exists>i. r = Delete_user i)"
  by (cases r)
     (simp_all add: plain_defs session_defs
        split: sum.splits option.splits bool.splits prod.splits)



text \<open>
  Claim C7. Whatever the route, the request and the state, the handler leaves the
  module's other bindings (\<^verbatim>\<open>app.secret_key\<close>, \<^verbatim>\<open>app.config\<close>) as they were, and
  only \<^verbatim>\<open>create_user\<close>, \<^verbatim>\<open>update_user\<close> and \<^verbatim>\<open>delete_user\<close> can change
  \<^verbatim>\<open>users_db\<close>. (The session and the flashed messages belong to the client, the
  file that \<^verbatim>\<open>download_data\<close> writes to the file system.)
\<close>

theorem handlers_change_only_users_db:
  "secret_key (snd (run r rq s)) = secret_key s \<and>
   config (snd (run r rq s)) = config s \<and>
   (users_db (snd (run r rq s)) = users_db s \<or> r = Create_user
      \<or> (\<exists>i. r = Update_user i) \<or> (\<exists>i. r = Delete_user i))"
  using run_globals[of r rq s] run_users_db[of r rq s] by blast

theorem handlers_change_only_users_db_witness:
  "secret_key (snd (run (Delete_user 2) request0 state0)) = ''dev-secret-key'' \<and>
   config (snd (run (Delete_user 2) request0 state0)) = config state0 \<and>
   length (users_db (snd (run (Delete_user 2) request0 state0))) = 2 \<and>
   users_db (snd (run Login request0 state0)) = users_db0"
proof -
  have a: "secret_key (snd (run (Delete_user 2) request0 state0)) = ''dev-secret-key''"
    using handlers_change_only_users_db[of "Delete_user 2" request0 state0]
    by (simp add: state0_def)
  have b: "config (snd (run (Delete_user 2) request0 state0)) = config state0"
    using handlers_change_only_users_db[of "Delete_user 2" request0 state0] by simp
  have c: "length (users_db (snd (run (Delete_user 2) request0 state0))) = 2"
    by (simp add: delete_user_def found_def state0_def users_db0_def)
  have d: "users_db (snd (run Login request0 state0)) = users_db0"
    using handlers_change_only_users_db[of Login request0 state0] by (simp add: state0_def)
  from a b c d show ?thesis by simp
qed

subsection \<open>The session\<close>





subsection \<open>Updating a user\<close>

lemma foldl_update_other:
  "k \<notin> fst ` set e \<Longrightarrow> map_of (foldl (\<lambda>d (k, v). AList.update k v d) d e) k = map_of d k"
  by (induction e arbitrary: d) (auto simp: update_conv')

lemma foldl_update_keys:
  "fst ` set (foldl (\<lambda>d (k, v). AList.update k v d) d e) = fst ` set d \<union> fst ` set e"
proof (induction e arbitrary: d)
  case Nil
  show ?case by simp
next
  case (Cons kv e)
  obtain k v where kv: "kv = (k, v)" by (cases kv)
  have "fst ` set (foldl (\<lambda>d (k, v). AList.update k v d) d (kv # e))
          = fst ` set (AList.update k v d) \<union> fst ` set e"
    using Cons.IH[of "AList.update k v d"] by (simp add: kv)
  also have "\<dots> = ({k} \<union> fst ` set d) \<union> fst ` set e"
    by (simp only: dom_update)
  also have "\<dots> = fst ` set d \<union> fst ` set (kv # e)"
    by (auto simp: kv)
  finally show ?case .
qed

lemma allowed_changes_keys:
  "fst ` set (allowed_changes items) \<subseteq> {''name'', ''email'', ''age''}"
  unfolding allowed_changes_def dict_of_def foldl_update_keys by auto

lemma dict_update_allowed_other:
  assumes "k \<notin> {''name'', ''email'', ''age''}"
  shows "map_of (dict_update u (allowed_changes items)) k = map_of u k"
proof -
  from assms allowed_changes_keys[of items] have "k \<notin> fst ` set (allowed_changes items)" by blast
  then show ?thesis unfolding dict_update_def by (rule foldl_update_other)
qed

lemma allowed_changes_filter:
  "allowed_changes (filter (\<lambda>(k, v). k \<in> {''name'', ''email'', ''age''}) kvs) = allowed_changes kvs"
  by (simp add: allowed_changes_def case_prod_unfold)

lemma dict_update_Nil: "dict_update u [] = u"
  by (simp add: dict_update_def)

lemma allowed_changes_Nil: "allowed_changes [] = []"
  by (simp add: allowed_changes_def dict_of_def)

lemma update_user_db_found:
  assumes "find_user uid (users_db s) = Inr (Some i)" "users_db s ! i \<noteq> []"
  shows "users_db (snd (update_user uid rq s)) =
     (case get_json rq of
        Inl e \<Rightarrow> users_db s
      | Inr data \<Rightarrow>
          if \<not> truthy data then users_db s
          else (case py_items data of
                  Inl e \<Rightarrow> users_db s
                | Inr items \<Rightarrow>
                    (users_db s)[i := dict_update (users_db s ! i) (allowed_changes items)]))"
  using assms by (simp add: update_user_def found_def Let_def split: sum.splits)

lemma update_user_db_missing:
  assumes "find_user uid (users_db s) = Inr None"
  shows "users_db (snd (update_user uid rq s)) = users_db s"
  using assms by (simp add: update_user_def found_def not_found_404_def)

lemma update_user_db:
  assumes "find_user uid (users_db s) = Inr (Some i)" "users_db s ! i \<noteq> []"
  shows "\<exists>items. users_db (snd (update_user uid rq s)) =
           (users_db s)[i := dict_update (users_db s ! i) (allowed_changes items)]"
proof -
  have id: "users_db s = (users_db s)[i := dict_update (users_db s ! i) (allowed_changes [])]"
    by (simp add: allowed_changes_Nil dict_update_Nil)
  show ?thesis
    unfolding update_user_db_found[OF assms]
    using id by (auto split: sum.splits)
qed


text \<open>
  Claim C9. When some element of a well-formed user list has the id \<open>user_id\<close>,
  \<^verbatim>\<open>update_user\<close> touches only the first such element, at position \<open>i\<close>: the list
  keeps its length, every other element is as before, and in the element at \<open>i\<close> every
  key other than \<^verbatim>\<open>'name'\<close>, \<^verbatim>\<open>'email'\<close> and \<^verbatim>\<open>'age'\<close> is bound as before, the
  \<^verbatim>\<open>'id'\<close> among them. This holds for every request, whatever its body is. The other
  keys of a JSON object in the body are ignored: dropping them from the body leads to
  the same user list.
\<close>

theorem update_user_frame:
  assumes wf: "users_wf (users_db s)"
    and ex: "\<exists>u\<in>set (users_db s). map_of u ''id'' = Some (PInt user_id)"
  shows "\<exists>i<length (users_db s).
           map_of (users_db s ! i) ''id'' = Some (PInt user_id) \<and>
           (\<forall>j<i. map_of (users_db s ! j) ''id'' \<noteq> Some (PInt user_id)) \<and>
           length (users_db (snd (update_user user_id rq s))) = length (users_db s) \<and>
           (\<forall>j<length (users_db s). j \<noteq> i \<longrightarrow>
               users_db (snd (update_user user_id rq s)) ! j = users_db s ! j) \<and>
           (\<forall>k. k \<notin> {''name'', ''email'', ''age''} \<longrightarrow>
               map_of (users_db (snd (update_user user_id rq s)) ! i) k = map_of (users_db s ! i) k) \<and>
           map_of (users_db (snd (update_user user_id rq s)) ! i) ''id'' = Some (PInt user_id) \<and>
           (\<forall>kvs. get_json rq = Inr (PDict kvs) \<longrightarrow>
               users_db (snd (update_user user_id
                   (rq\<lparr>get_json := Inr (PDict (filter (\<lambda>(k, v). k \<in> {''name'', ''email'', ''age''}) kvs))\<rparr>) s))
                 = users_db (snd (update_user user_id rq s)))"
proof -
  let ?db = "users_db s"
  from find_user_wf[OF wf, of user_id] ex
  obtain i where i: "find_user user_id ?db = Inr (Some i)" "i < length ?db"
      "map_of (?db ! i) ''id'' = Some (PInt user_id)"
      "\<forall>j<i. map_of (?db ! j) ''id'' \<noteq> Some (PInt user_id)"
    by blast
  from i(3) have ne: "?db ! i \<noteq> []" by auto
  from update_user_db[OF i(1) ne, of rq]
  obtain items where db': "users_db (snd (update_user user_id rq s)) =
      ?db[i := dict_update (?db ! i) (allowed_changes items)]" by blast
  have len: "length (users_db (snd (update_user user_id rq s))) = length ?db"
    by (simp add: db')
  have others: "\<forall>j<length ?db. j \<noteq> i \<longrightarrow> users_db (snd (update_user user_id rq s)) ! j = ?db ! j"
    by (simp add: db')
  have keys: "\<forall>k. k \<notin> {''name'', ''email'', ''age''} \<longrightarrow>
      map_of (users_db (snd (update_user user_id rq s)) ! i) k = map_of (?db ! i) k"
    using i(2) by (simp add: db' dict_update_allowed_other)
  have "map_of (users_db (snd (update_user user_id rq s)) ! i) ''id'' = map_of (?db ! i) ''id''"
    using keys by simp
  with i(3) have idk: "map_of (users_db (snd (update_user user_id rq s)) ! i) ''id'' = Some (PInt user_id)"
    by simp
  have filt: "\<forall>kvs. get_json rq = Inr (PDict kvs) \<longrightarrow>
      users_db (snd (update_user user_id
          (rq\<lparr>get_json := Inr (PDict (filter (\<lambda>(k, v). k \<in> {''name'', ''email'', ''age''}) kvs))\<rparr>) s))
        = users_db (snd (update_user user_id rq s))"
  proof (intro allI impI)
    fix kvs
    assume gj: "get_json rq = Inr (PDict kvs)"
    let ?f = "filter (\<lambda>(k, v). k \<in> {''name'', ''email'', ''age''}) kvs"
    have same: "?db[i := dict_update (?db ! i) (allowed_changes kvs)] = ?db" if "?f = []"
    proof -
      from that have "allowed_changes kvs = []"
        using allowed_changes_filter[of kvs] by (simp add: allowed_changes_Nil)
      then show ?thesis by (simp add: dict_update_Nil)
    qed
    let ?new = "?db[i := dict_update (?db ! i) (allowed_changes kvs)]"
    have af: "allowed_changes ?f = allowed_changes kvs" by (rule allowed_changes_filter)
    have l0: "users_db (snd (update_user user_id (rq\<lparr>get_json := Inr (PDict ?f)\<rparr>) s))
        = (if ?f = [] then ?db else ?db[i := dict_update (?db ! i) (allowed_changes ?f)])"
      unfolding update_user_db_found[OF i(1) ne] by simp
    have "(if ?f = [] then ?db else ?db[i := dict_update (?db ! i) (allowed_changes ?f)]) = ?new"
    proof (cases "?f = []")
      case True
      then have "(if ?f = [] then ?db else ?db[i := dict_update (?db ! i) (allowed_changes ?f)]) = ?db"
        by (rule if_P)
      also have "\<dots> = ?new" using same[OF True] by (rule sym)
      finally show ?thesis .
    next
      case False
      then have "(if ?f = [] then ?db else ?db[i := dict_update (?db ! i) (allowed_changes ?f)])
          = ?db[i := dict_update (?db ! i) (allowed_changes ?f)]"
        by (rule if_not_P)
      also have "\<dots> = ?new" by (simp only: af)
      finally show ?thesis .
    qed
    with l0 have l: "users_db (snd (update_user user_id (rq\<lparr>get_json := Inr (PDict ?f)\<rparr>) s)) = ?new"
      by (rule trans)
    have r0: "users_db (snd (update_user user_id rq s))
        = (if kvs = [] then ?db else ?new)"
      unfolding update_user_db_found[OF i(1) ne] by (simp add: gj)
    have "kvs = [] \<Longrightarrow> ?f = []" by simp
    with same have "kvs = [] \<Longrightarrow> ?new = ?db" by blast
    with r0 have r: "users_db (snd (update_user user_id rq s)) = ?new"
      by (cases "kvs = []") simp_all
    from l r show "users_db (snd (update_user user_id (rq\<lparr>get_json := Inr (PDict ?f)\<rparr>) s))
        = users_db (snd (update_user user_id rq s))" by simp
  qed
  from i(2,3,4) len others keys idk filt show ?thesis by blast
qed


theorem update_user_frame_witness:
  "length (users_db (snd (update_user 2 request0 state0))) = 3 \<and>
   users_db (snd (update_user 2 request0 state0)) =
     [[(''id'', PInt 1), (''name'', PStr ''Alice Johnson''),
       (''email'', PStr ''alice@example.com''), (''age'', PInt 28)],
      [(''id'', PInt 2), (''name'', PStr ''Dora''),
       (''email'', PStr ''dora@example.com''), (''age'', PInt 32)],
      [(''id'', PInt 3), (''name'', PStr ''Charlie Brown''),
       (''email'', PStr ''charlie@example.com''), (''age'', PInt 25)]]"
proof -
  have wf: "users_wf (users_db state0)" by (rule users_wf_state0)
  have ex: "\<exists>u\<in>set (users_db state0). map_of u ''id'' = Some (PInt 2)"
    by (simp add: state0_def users_db0_def)
  from update_user_frame[OF wf ex, of request0]
  have "length (users_db (snd (update_user 2 request0 state0))) = length (users_db state0)"
    by blast
  then have a: "length (users_db (snd (update_user 2 request0 state0))) = 3"
    by (simp add: state0_def users_db0_def)
  have b: "users_db (snd (update_user 2 request0 state0)) =
     [[(''id'', PInt 1), (''name'', PStr ''Alice Johnson''),
       (''email'', PStr ''alice@example.com''), (''age'', PInt 28)],
      [(''id'', PInt 2), (''name'', PStr ''Dora''),
       (''email'', PStr ''dora@example.com''), (''age'', PInt 32)],
      [(''id'', PInt 3), (''name'', PStr ''Charlie Brown''),
       (''email'', PStr ''charlie@example.com''), (''age'', PInt 25)]]"
    by (simp add: update_user_def found_def Let_def state0_def users_db0_def request0_def
        allowed_changes_def dict_of_def dict_update_def)
  from a b show ?thesis by (rule conjI)
qed

subsection \<open>Ids stay unique, new ids are fresh\<close>

lemma int_ids_mem:
  "v \<in> set db \<Longrightarrow> map_of v ''id'' = Some (PInt n) \<Longrightarrow> n \<in> set (int_ids db)"
  by (force simp: int_ids_def List.map_filter_def int_id_def)

lemma fresh_id_gt:
  assumes "v \<in> set db" "map_of v ''id'' = Some (PInt n)"
  shows "n < fresh_id db"
proof -
  from assms have "n \<in> set (int_ids db)" by (rule int_ids_mem)
  then have "n \<le> Max (set (int_ids db))" by simp
  moreover from assms(1) have "db \<noteq> []" by auto
  ultimately show ?thesis by (simp add: fresh_id_def)
qed

lemma next_id_fresh: "users_wf db \<Longrightarrow> next_id db = Inr (PInt (fresh_id db))"
  by (simp add: next_id_wf fresh_id_def)

lemma create_user_cases:
  assumes "users_wf (users_db s)"
  shows "(users_db (snd (create_user rq s)) = users_db s \<and>
          (\<forall>r. fst (create_user rq s) = Inr r \<longrightarrow> status r \<noteq> 201))
       \<or> (\<exists>n m a. fst (create_user rq s) =
                    Inr (jsonify (PDict [(''id'', PInt (fresh_id (users_db s))), (''name'', n),
                                        (''email'', m), (''age'', a)]) 201) \<and>
                  users_db (snd (create_user rq s)) =
                    users_db s @ [[(''id'', PInt (fresh_id (users_db s))), (''name'', n),
                                   (''email'', m), (''age'', a)]])"
  by (auto simp: create_user_def new_user_def next_id_fresh[OF assms] jsonify_def
      split: sum.splits bool.splits)

lemma delete_user_db:
  assumes "users_wf (users_db s)"
  shows "users_db (snd (delete_user uid rq s)) = users_db s
       \<or> users_db (snd (delete_user uid rq s)) =
           filter (\<lambda>u. map_of u ''id'' \<noteq> Some (PInt uid)) (users_db s)"
  by (auto simp: delete_user_def without_user_wf[OF assms] split: sum.splits)

lemma update_user_ids:
  assumes wf: "users_wf (users_db s)"
  shows "map (\<lambda>u. map_of u ''id'') (users_db (snd (update_user uid rq s)))
       = map (\<lambda>u. map_of u ''id'') (users_db s)"
  using find_user_wf[OF wf, of uid]
proof (elim disjE exE conjE)
  fix i
  assume i: "find_user uid (users_db s) = Inr (Some i)" "i < length (users_db s)"
    "map_of (users_db s ! i) ''id'' = Some (PInt uid)"
  from i(3) have ne: "users_db s ! i \<noteq> []" by auto
  from update_user_db[OF i(1) ne, of rq]
  obtain items where db': "users_db (snd (update_user uid rq s)) =
      (users_db s)[i := dict_update (users_db s ! i) (allowed_changes items)]" by blast
  have "map_of (dict_update (users_db s ! i) (allowed_changes items)) ''id''
      = map_of (users_db s ! i) ''id''"
    by (rule dict_update_allowed_other) simp
  then show ?thesis using i(2) by (simp add: db' map_update list_update_same_conv)
next
  assume "find_user uid (users_db s) = Inr None"
  then show ?thesis by (simp add: update_user_db_missing)
qed

text \<open>
  Claim C8. On a well-formed user list whose \<^verbatim>\<open>'id'\<close> fields are pairwise distinct,
  they are still pairwise distinct after \<^verbatim>\<open>create_user\<close>, after \<^verbatim>\<open>update_user\<close> and
  after \<^verbatim>\<open>delete_user\<close>. Moreover \<^verbatim>\<open>create_user\<close> either leaves the list as it was
  (and does not answer 201), or answers 201 and appends one user whose id is \<open>fresh_id\<close>
  of the old list, the greatest id plus one or 1 for the empty list, which is greater
  than every id in the old list.
\<close>

theorem user_ids_unique_and_fresh:
  assumes wf: "users_wf (users_db s)"
    and dist: "distinct (map (\<lambda>u. map_of u ''id'') (users_db s))"
  shows "distinct (map (\<lambda>u. map_of u ''id'') (users_db (snd (create_user rq s)))) \<and>
         distinct (map (\<lambda>u. map_of u ''id'') (users_db (snd (update_user user_id rq s)))) \<and>
         distinct (map (\<lambda>u. map_of u ''id'') (users_db (snd (delete_user user_id rq s)))) \<and>
         ((users_db (snd (create_user rq s)) = users_db s \<and>
           (\<forall>r. fst (create_user rq s) = Inr r \<longrightarrow> status r \<noteq> 201))
          \<or> (\<exists>u. fst (create_user rq s) = Inr (jsonify (PDict u) 201) \<and>
                  users_db (snd (create_user rq s)) = users_db s @ [u] \<and>
                  map_of u ''id'' = Some (PInt (fresh_id (users_db s))) \<and>
                  (\<forall>v\<in>set (users_db s). \<forall>n. map_of v ''id'' = Some (PInt n) \<longrightarrow>
                      n < fresh_id (users_db s))))"
proof -
  let ?f = "\<lambda>u. map_of u ''id''"
  have gt: "\<forall>v\<in>set (users_db s). \<forall>n. map_of v ''id'' = Some (PInt n) \<longrightarrow> n < fresh_id (users_db s)"
    using fresh_id_gt by blast
  have c: "distinct (map ?f (users_db (snd (create_user rq s))))"
    using create_user_cases[OF wf, of rq]
  proof (elim disjE exE conjE)
    assume "users_db (snd (create_user rq s)) = users_db s"
    with dist show ?thesis by simp
  next
    fix n m a
    assume db': "users_db (snd (create_user rq s)) =
        users_db s @ [[(''id'', PInt (fresh_id (users_db s))), (''name'', n), (''email'', m), (''age'', a)]]"
    have "Some (PInt (fresh_id (users_db s))) \<notin> ?f ` set (users_db s)"
      using gt by force
    with dist show ?thesis by (simp add: db')
  qed
  have u: "distinct (map ?f (users_db (snd (update_user user_id rq s))))"
    using dist by (simp only: update_user_ids[OF wf])
  have d: "distinct (map ?f (users_db (snd (delete_user user_id rq s))))"
    using delete_user_db[OF wf, of user_id rq] dist by (auto simp: distinct_map_filter)
  have f: "(users_db (snd (create_user rq s)) = users_db s \<and>
           (\<forall>r. fst (create_user rq s) = Inr r \<longrightarrow> status r \<noteq> 201))
          \<or> (\<exists>u. fst (create_user rq s) = Inr (jsonify (PDict u) 201) \<and>
                  users_db (snd (create_user rq s)) = users_db s @ [u] \<and>
                  map_of u ''id'' = Some (PInt (fresh_id (users_db s))) \<and>
                  (\<forall>v\<in>set (users_db s). \<forall>n. map_of v ''id'' = Some (PInt n) \<longrightarrow>
                      n < fresh_id (users_db s)))"
    using create_user_cases[OF wf, of rq]
  proof (elim disjE exE conjE)
    assume "users_db (snd (create_user rq s)) = users_db s"
      "\<forall>r. fst (create_user rq s) = Inr r \<longrightarrow> status r \<noteq> 201"
    then show ?thesis by blast
  next
    fix n m a
    let ?u = "[(''id'', PInt (fresh_id (users_db s))), (''name'', n), (''email'', m), (''age'', a)]"
    assume "fst (create_user rq s) = Inr (jsonify (PDict ?u) 201)"
      "users_db (snd (create_user rq s)) = users_db s @ [?u]"
    moreover have "map_of ?u ''id'' = Some (PInt (fresh_id (users_db s)))" by simp
    ultimately show ?thesis using gt by blast
  qed
  from c u d f show ?thesis by blast
qed


theorem user_ids_unique_and_fresh_witness:
  "distinct (map (\<lambda>u. map_of u ''id'') (users_db (snd (create_user request0 state0)))) \<and>
   distinct (map (\<lambda>u. map_of u ''id'') (users_db (snd (update_user 2 request0 state0)))) \<and>
   distinct (map (\<lambda>u. map_of u ''id'') (users_db (snd (delete_user 2 request0 state0)))) \<and>
   users_db (snd (create_user request0 state0)) =
     users_db0 @ [[(''id'', PInt 4), (''name'', PStr ''Dora''),
                   (''email'', PStr ''dora@example.com''), (''age'', PInt 0)]]"
proof -
  have wf: "users_wf (users_db state0)" by (rule users_wf_state0)
  have dist: "distinct (map (\<lambda>u. map_of u ''id'') (users_db state0))"
    by (simp add: state0_def users_db0_def)
  have ids: "int_ids users_db0 = [1, 2, 3]"
    by (simp add: int_ids_def int_id_def users_db0_def)
  have "fresh_id (users_db state0) = 4"
    by (simp add: fresh_id_def state0_def ids) (simp add: users_db0_def)
  have new: "users_db (snd (create_user request0 state0)) =
     users_db0 @ [[(''id'', PInt 4), (''name'', PStr ''Dora''),
                   (''email'', PStr ''dora@example.com''), (''age'', PInt 0)]]"
    using next_id_fresh[OF wf] \<open>fresh_id (users_db state0) = 4\<close>
    by (simp add: create_user_def new_user_def lacks_name_or_email_def request0_def)
       (simp add: state0_def)
  from user_ids_unique_and_fresh[OF wf dist, of request0 2] new show ?thesis by blast
qed

subsection \<open>Well-formedness is an invariant\<close>

text \<open>
  The initial list is well formed (\<open>users_wf_state0\<close>) and every handler keeps the list
  well formed, so every list the application can reach is.
\<close>

lemma has_int_id_dict_update:
  assumes "has_int_id u"
  shows "has_int_id (dict_update u (allowed_changes items))"
proof -
  have "map_of (dict_update u (allowed_changes items)) ''id'' = map_of u ''id''"
    by (rule dict_update_allowed_other) simp
  with assms show ?thesis by (simp add: has_int_id_def)
qed

lemma users_wf_run:
  assumes wf: "users_wf (users_db s)"
  shows "users_wf (users_db (snd (run r rq s)))"
proof -
  have c: "users_wf (users_db (snd (create_user rq s)))"
    using create_user_cases[OF wf, of rq] wf
    by (auto simp: users_wf_def has_int_id_def)
  have u: "users_wf (users_db (snd (update_user i rq s)))" for i
    using find_user_wf[OF wf, of i]
  proof (elim disjE exE conjE)
    fix j
    assume j: "find_user i (users_db s) = Inr (Some j)" "j < length (users_db s)"
      "map_of (users_db s ! j) ''id'' = Some (PInt i)"
    from j(3) have ne: "users_db s ! j \<noteq> []" by auto
    from update_user_db[OF j(1) ne, of rq]
    obtain items where db': "users_db (snd (update_user i rq s)) =
        (users_db s)[j := dict_update (users_db s ! j) (allowed_changes items)]" by blast
    have "has_int_id (dict_update (users_db s ! j) (allowed_changes items))"
      using users_wf_nth[OF wf j(2)] by (rule has_int_id_dict_update)
    then show ?thesis
      using wf by (auto simp: db' users_wf_def list_all_iff dest: set_update_subset_insert[THEN subsetD])
  next
    assume "find_user i (users_db s) = Inr None"
    with wf show ?thesis by (simp add: update_user_db_missing)
  qed
  have d: "users_wf (users_db (snd (delete_user i rq s)))" for i
    using delete_user_db[OF wf, of i rq] wf by (auto simp: users_wf_def list_all_iff)
  from run_users_db[of r rq s] c u d wf show ?thesis by auto
qed

section \<open>Error paths\<close>
















end
